theory Spec2Isabelle
  imports Main
begin

section \<open>Data model\<close>

text \<open>
  The objects the handlers read are objects of the chat-platform client library. Each is a
  record of the attributes the source reads. Field names follow the source; \<open>id\<close> is
  written \<open>member_id\<close>, \<open>role_id\<close>, \<open>guild_id\<close> and \<open>mention\<close> of a role
  \<open>role_mention\<close>, since a field name is a constant of its own.

  A role is compared with \<open><=\<close> in the source (\<open>author.top_role <= member.top_role\<close>);
  the library orders roles by their place in the guild's hierarchy, a linear order. The
  \<open>top_role\<close> of a member is therefore kept as its rank in that order.
\<close>

type_synonym rank = int

record role =
  role_id :: nat
  role_mention :: string

record voice_state =
  channel :: "nat option"

record member =
  member_id :: nat
  name :: string
  display_name :: string
  mention :: string
  roles :: "role list"
  top_role :: rank
  voice :: "voice_state option"

record guild =
  guild_id :: nat
  me :: member

text \<open>
  The persistent per-guild store of the cog: \<open>Config.register_guild(mod_roles=[])\<close>.
  A guild that was never written reads as the registered default, the empty list.
\<close>

type_synonym config = "nat \<rightharpoonup> nat list"

definition mod_roles :: "config \<Rightarrow> guild \<Rightarrow> nat list" where
  "mod_roles cfg g = (case cfg (guild_id g) of None \<Rightarrow> [] | Some ids \<Rightarrow> ids)"

record cog =
  config :: config

text \<open>
  The bot: \<open>is_owner\<close> is the framework's owner test, \<open>get_cog\<close> its registry of loaded
  cogs by name. The handlers' \<open>self.bot\<close> and the check's \<open>interaction.client\<close> are the
  same bot, the \<open>client\<close> of the interaction.
\<close>

record client =
  is_owner :: "member \<Rightarrow> bool"
  get_cog :: "string \<rightharpoonup> cog"

record interaction =
  user :: member
  guild :: guild
  client :: client

subsection \<open>Effects\<close>

text \<open>
  What a handler does to the outside is a list of events in the order they happen:
  a response sent with \<open>interaction.response.send_message(content, ephemeral=...)\<close>, or a
  call of a mutating method of the platform (\<open>member.kick\<close>, \<open>member.ban\<close>,
  \<open>member.edit\<close>). \<open>member.edit\<close> takes \<open>mute\<close> and \<open>deafen\<close> as optional keywords:
  \<open>None\<close> is a keyword the call does not pass. Delivering a response belongs to the
  host library and is taken to succeed; the boolean of \<open>Send\<close> is the \<open>ephemeral\<close> flag.
\<close>

datatype platform_call =
  Member_kick member string
| Member_ban member string
| Member_edit member "bool option" "bool option" string

datatype event =
  Send string bool
| Call platform_call

text \<open>
  What the platform answers to a call: it returns, it raises \<open>discord.Forbidden\<close>, or it
  raises another exception \<open>e\<close> that \<open>except Exception\<close> catches, kept as the text
  \<open>str(e)\<close> that the handlers format.
\<close>

datatype outcome = Returns | Raises_Forbidden | Raises string

type_synonym platform = "platform_call \<Rightarrow> outcome"

subsection \<open>Formatting\<close>

text \<open>Python's \<open>str\<close> of a non-negative integer, as an f-string renders \<open>{author.id}\<close>.\<close>

definition digit :: "nat \<Rightarrow> char" where
  "digit d = ''0123456789'' ! d"

fun str_nat :: "nat \<Rightarrow> string" where
  "str_nat n = (if n < 10 then [digit n] else str_nat (n div 10) @ [digit (n mod 10)])"

declare str_nat.simps [simp del]

section \<open>The authorization check\<close>


section \<open>Configuration commands\<close>

text \<open>
  \<open>async with self.config.guild(interaction.guild).mod_roles() as mod_roles\<close> reads the
  guild's list, lets the body change it and stores it back when it changed. The model
  returns the cog with its new store and the responses sent.
\<close>

definition add_mod_role :: "cog \<Rightarrow> interaction \<Rightarrow> role \<Rightarrow> cog \<times> event list" where
  "add_mod_role self interaction role =
    (let ids = mod_roles (config self) (guild interaction) in
     if role_id role \<in> set ids then
       (self, [Send (role_mention role @ '' is already a moderator role.'') True])
     else
       (self\<lparr>config := (config self)(guild_id (guild interaction) \<mapsto> ids @ [role_id role])\<rparr>,
        [Send (role_mention role @ '' has been added as a moderator role.'') True]))"

text \<open>
  \<open>list.remove(x)\<close> deletes the first occurrence of \<open>x\<close> and raises \<open>ValueError\<close> when
  there is none. An exception leaves the \<open>async with\<close> block before anything is stored
  or sent, so the command as a whole returns the error.
\<close>

datatype error = ValueError

definition list_remove :: "'a \<Rightarrow> 'a list \<Rightarrow> error + 'a list" where
  "list_remove x xs = (if x \<in> set xs then Inr (remove1 x xs) else Inl ValueError)"

definition remove_mod_role :: "cog \<Rightarrow> interaction \<Rightarrow> role \<Rightarrow> error + cog \<times> event list" where
  "remove_mod_role self interaction role =
    (let ids = mod_roles (config self) (guild interaction) in
     if role_id role \<notin> set ids then
       Inr (self, [Send (role_mention role @ '' is not a moderator role.'') True])
     else
       case list_remove (role_id role) ids of
         Inl err \<Rightarrow> Inl err
       | Inr ids' \<Rightarrow>
           Inr (self\<lparr>config := (config self)(guild_id (guild interaction) \<mapsto> ids')\<rparr>,
                [Send (role_mention role @ '' has been removed from the moderator roles.'') True]))"

text \<open>
  The store of a freshly constructed cog, and the stores that sequences of the two
  configuration commands lead to from it. A command that raised has stored nothing.
\<close>

definition new_cog :: cog where
  "new_cog = \<lparr>config = Map.empty\<rparr>"

datatype config_command =
  Addrole interaction role
| Removerole interaction role

fun run_config :: "cog \<Rightarrow> config_command list \<Rightarrow> cog" where
  "run_config self [] = self"
| "run_config self (Addrole i r # cmds) = run_config (fst (add_mod_role self i r)) cmds"
| "run_config self (Removerole i r # cmds) =
     (case remove_mod_role self i r of
        Inl err \<Rightarrow> run_config self cmds
      | Inr (self', sent) \<Rightarrow> run_config self' cmds)"

section \<open>Moderation commands\<close>

text \<open>
  Each handler takes the platform (what a mutating call answers), the interaction, the
  target member and, where the command has the parameter, the optional \<open>reason\<close>
  argument; it returns the events in order. A \<open>try\<close> block is the call followed by the
  response of the branch the platform's answer selects. The parameter \<open>member\<close> of the
  source is written \<open>memb\<close>.
\<close>

definition default_reason :: "string option \<Rightarrow> string" where
  "default_reason arg = (case arg of None \<Rightarrow> ''No reason provided.'' | Some r \<Rightarrow> r)"

definition check_voice_channel :: "interaction \<Rightarrow> member \<Rightarrow> bool \<times> event list" where
  "check_voice_channel interaction memb =
    (if (case voice memb of None \<Rightarrow> True | Some vs \<Rightarrow> channel vs = None) then
       (False, [Send (mention memb @ '' is not in a voice channel.'') True])
     else (True, []))"

definition kick_slash :: "platform \<Rightarrow> interaction \<Rightarrow> member \<Rightarrow> string option \<Rightarrow> event list" where
  "kick_slash P interaction memb reason_arg =
    (let reason = default_reason reason_arg; author = user interaction in
     if member_id memb = member_id author then
       [Send ''You cannot kick yourself.'' True]
     else if top_role author \<le> top_role memb \<and> \<not> is_owner (client interaction) author then
       [Send ''You cannot kick a member with an equal or higher role.'' True]
     else if top_role (me (guild interaction)) \<le> top_role memb then
       [Send ''I cannot kick a member with an equal or higher role than me.'' True]
     else
       let call = Member_kick memb (''Kicked by '' @ name author @ '' ('' @ str_nat (member_id author) @ ''). Reason: '' @ reason) in
       Call call #
       (case P call of
          Returns \<Rightarrow> [Send (''Successfully kicked '' @ mention memb @ ''. Reason: '' @ reason) True]
        | Raises_Forbidden \<Rightarrow>
            [Send ''I don't have the required permissions to kick this user.'' True]
        | Raises e \<Rightarrow> [Send (''An error occurred: '' @ e) True]))"

definition ban_slash :: "platform \<Rightarrow> interaction \<Rightarrow> member \<Rightarrow> string option \<Rightarrow> event list" where
  "ban_slash P interaction memb reason_arg =
    (let reason = default_reason reason_arg; author = user interaction in
     if member_id memb = member_id author then
       [Send ''You cannot ban yourself.'' True]
     else if top_role author \<le> top_role memb \<and> \<not> is_owner (client interaction) author then
       [Send ''You cannot ban a member with an equal or higher role.'' True]
     else if top_role (me (guild interaction)) \<le> top_role memb then
       [Send ''I cannot ban a member with an equal or higher role than me.'' True]
     else
       let call = Member_ban memb (''Banned by '' @ name author @ '' ('' @ str_nat (member_id author) @ ''). Reason: '' @ reason) in
       Call call #
       (case P call of
          Returns \<Rightarrow> [Send (''Successfully banned '' @ mention memb @ ''. Reason: '' @ reason) True]
        | Raises_Forbidden \<Rightarrow>
            [Send ''I don't have the required permissions to ban this user.'' True]
        | Raises e \<Rightarrow> [Send (''An error occurred: '' @ e) True]))"

definition mute_slash :: "platform \<Rightarrow> interaction \<Rightarrow> member \<Rightarrow> string option \<Rightarrow> event list" where
  "mute_slash P interaction memb reason_arg =
    (case check_voice_channel interaction memb of
       (False, sent) \<Rightarrow> sent
     | (True, sent) \<Rightarrow> sent @
    (let reason = default_reason reason_arg; author = user interaction in
     if top_role author \<le> top_role memb \<and> \<not> is_owner (client interaction) author then
       [Send ''You cannot mute a member with an equal or higher role.'' True]
     else
       let call = Member_edit memb (Some True) None (''Muted by '' @ name author @ '' ('' @ str_nat (member_id author) @ ''). Reason: '' @ reason) in
       Call call #
       (case P call of
          Returns \<Rightarrow> [Send (''Successfully muted '' @ mention memb @ ''. Reason: '' @ reason) True]
        | Raises_Forbidden \<Rightarrow>
            [Send ''I don't have the required permissions to mute this user.'' True]
        | Raises e \<Rightarrow> [Send (''An error occurred: '' @ e) True])))"

definition unmute_slash :: "platform \<Rightarrow> interaction \<Rightarrow> member \<Rightarrow> event list" where
  "unmute_slash P interaction memb =
    (case check_voice_channel interaction memb of
       (False, sent) \<Rightarrow> sent
     | (True, sent) \<Rightarrow> sent @
    (let author = user interaction in
     if top_role author \<le> top_role memb \<and> \<not> is_owner (client interaction) author then
       [Send ''You cannot unmute a member with an equal or higher role.'' True]
     else
       let call = Member_edit memb (Some False) None (''Unmuted by '' @ name author @ '' ('' @ str_nat (member_id author) @ '').'') in
       Call call #
       (case P call of
          Returns \<Rightarrow> [Send (''Successfully unmuted '' @ mention memb @ ''.'') True]
        | Raises_Forbidden \<Rightarrow>
            [Send ''I don't have the required permissions to unmute this user.'' True]
        | Raises e \<Rightarrow> [Send (''An error occurred: '' @ e) True])))"

definition deafen_slash :: "platform \<Rightarrow> interaction \<Rightarrow> member \<Rightarrow> string option \<Rightarrow> event list" where
  "deafen_slash P interaction memb reason_arg =
    (case check_voice_channel interaction memb of
       (False, sent) \<Rightarrow> sent
     | (True, sent) \<Rightarrow> sent @
    (let reason = default_reason reason_arg; author = user interaction in
     if top_role author \<le> top_role memb \<and> \<not> is_owner (client interaction) author then
       [Send ''You cannot deafen a member with an equal or higher role.'' True]
     else
       let call = Member_edit memb None (Some True) (''Deafened by '' @ name author @ '' ('' @ str_nat (member_id author) @ ''). Reason: '' @ reason) in
       Call call #
       (case P call of
          Returns \<Rightarrow> [Send (''Successfully deafened '' @ mention memb @ ''. Reason: '' @ reason) True]
        | Raises_Forbidden \<Rightarrow>
            [Send ''I don't have the required permissions to deafen this user.'' True]
        | Raises e \<Rightarrow> [Send (''An error occurred: '' @ e) True])))"

definition undeafen_slash :: "platform \<Rightarrow> interaction \<Rightarrow> member \<Rightarrow> event list" where
  "undeafen_slash P interaction memb =
    (case check_voice_channel interaction memb of
       (False, sent) \<Rightarrow> sent
     | (True, sent) \<Rightarrow> sent @
    (let author = user interaction in
     if top_role author \<le> top_role memb \<and> \<not> is_owner (client interaction) author then
       [Send ''You cannot undeafen a member with an equal or higher role.'' True]
     else
       let call = Member_edit memb None (Some False) (''Undeafened by '' @ name author @ '' ('' @ str_nat (member_id author) @ '').'') in
       Call call #
       (case P call of
          Returns \<Rightarrow> [Send (''Successfully undeafened '' @ mention memb @ ''.'') True]
        | Raises_Forbidden \<Rightarrow>
            [Send ''I don't have the required permissions to undeafen this user.'' True]
        | Raises e \<Rightarrow> [Send (''An error occurred: '' @ e) True])))"

definition silence_slash :: "platform \<Rightarrow> interaction \<Rightarrow> member \<Rightarrow> string option \<Rightarrow> event list" where
  "silence_slash P interaction memb reason_arg =
    (case check_voice_channel interaction memb of
       (False, sent) \<Rightarrow> sent
     | (True, sent) \<Rightarrow> sent @
    (let reason = default_reason reason_arg; author = user interaction in
     if top_role author \<le> top_role memb \<and> \<not> is_owner (client interaction) author then
       [Send ''You cannot silence a member with an equal or higher role.'' True]
     else
       let call = Member_edit memb (Some True) (Some True) (''Silenced by '' @ name author @ '' ('' @ str_nat (member_id author) @ ''). Reason: '' @ reason) in
       Call call #
       (case P call of
          Returns \<Rightarrow> [Send (''Successfully silenced '' @ mention memb @ ''. Reason: '' @ reason) True]
        | Raises_Forbidden \<Rightarrow>
            [Send ''I don't have the required permissions to silence this user.'' True]
        | Raises e \<Rightarrow> [Send (''An error occurred: '' @ e) True])))"

definition unsilence_slash :: "platform \<Rightarrow> interaction \<Rightarrow> member \<Rightarrow> event list" where
  "unsilence_slash P interaction memb =
    (case check_voice_channel interaction memb of
       (False, sent) \<Rightarrow> sent
     | (True, sent) \<Rightarrow> sent @
    (let author = user interaction in
     if top_role author \<le> top_role memb \<and> \<not> is_owner (client interaction) author then
       [Send ''You cannot unsilence a member with an equal or higher role.'' True]
     else
       let call = Member_edit memb (Some False) (Some False) (''Unsilenced by '' @ name author @ '' ('' @ str_nat (member_id author) @ '').'') in
       Call call #
       (case P call of
          Returns \<Rightarrow> [Send (''Successfully unsilenced '' @ mention memb @ ''.'') True]
        | Raises_Forbidden \<Rightarrow>
            [Send ''I don't have the required permissions to unsilence this user.'' True]
        | Raises e \<Rightarrow> [Send (''An error occurred: '' @ e) True])))"

subsection \<open>Context-menu commands\<close>

text \<open>
  The variant with context menus registers four of them: kick, ban, mute and deafen. A
  context-menu command has no \<open>reason\<close> parameter; each builds its reason from the
  author's display name. The two that act on voice state test the voice channel inline.
\<close>

definition kick_context_menu :: "platform \<Rightarrow> interaction \<Rightarrow> member \<Rightarrow> event list" where
  "kick_context_menu P interaction memb =
    (let author = user interaction; bot = client interaction;
         reason = ''Kicked by '' @ display_name author @ '' via context menu.'' in
     if member_id memb = member_id author then
       [Send ''You cannot kick yourself.'' True]
     else if top_role author \<le> top_role memb \<and> \<not> is_owner bot author then
       [Send ''You cannot kick a member with an equal or higher role.'' True]
     else if top_role (me (guild interaction)) \<le> top_role memb then
       [Send ''I cannot kick a member with an equal or higher role than me.'' True]
     else
       let call = Member_kick memb reason in
       Call call #
       (case P call of
          Returns \<Rightarrow> [Send (''Successfully kicked '' @ mention memb @ ''.'') True]
        | Raises_Forbidden \<Rightarrow>
            [Send ''I don't have the required permissions to kick this user.'' True]
        | Raises e \<Rightarrow> [Send (''An error occurred: '' @ e) True]))"

definition ban_context_menu :: "platform \<Rightarrow> interaction \<Rightarrow> member \<Rightarrow> event list" where
  "ban_context_menu P interaction memb =
    (let author = user interaction; bot = client interaction;
         reason = ''Banned by '' @ display_name author @ '' via context menu.'' in
     if member_id memb = member_id author then
       [Send ''You cannot ban yourself.'' True]
     else if top_role author \<le> top_role memb \<and> \<not> is_owner bot author then
       [Send ''You cannot ban a member with an equal or higher role.'' True]
     else if top_role (me (guild interaction)) \<le> top_role memb then
       [Send ''I cannot ban a member with an equal or higher role than me.'' True]
     else
       let call = Member_ban memb reason in
       Call call #
       (case P call of
          Returns \<Rightarrow> [Send (''Successfully banned '' @ mention memb @ ''.'') True]
        | Raises_Forbidden \<Rightarrow>
            [Send ''I don't have the required permissions to ban this user.'' True]
        | Raises e \<Rightarrow> [Send (''An error occurred: '' @ e) True]))"

definition mute_context_menu :: "platform \<Rightarrow> interaction \<Rightarrow> member \<Rightarrow> event list" where
  "mute_context_menu P interaction memb =
    (let author = user interaction; bot = client interaction;
         reason = ''Muted by '' @ display_name author @ '' via context menu.'' in
     if (case voice memb of None \<Rightarrow> True | Some vs \<Rightarrow> channel vs = None) then
       [Send (mention memb @ '' is not in a voice channel.'') True]
     else if top_role author \<le> top_role memb \<and> \<not> is_owner bot author then
       [Send ''You cannot mute a member with an equal or higher role.'' True]
     else
       let call = Member_edit memb (Some True) None reason in
       Call call #
       (case P call of
          Returns \<Rightarrow> [Send (''Successfully muted '' @ mention memb @ ''.'') True]
        | Raises_Forbidden \<Rightarrow>
            [Send ''I don't have the required permissions to mute this user.'' True]
        | Raises e \<Rightarrow> [Send (''An error occurred: '' @ e) True]))"

definition deafen_context_menu :: "platform \<Rightarrow> interaction \<Rightarrow> member \<Rightarrow> event list" where
  "deafen_context_menu P interaction memb =
    (let author = user interaction; bot = client interaction;
         reason = ''Deafened by '' @ display_name author @ '' via context menu.'' in
     if (case voice memb of None \<Rightarrow> True | Some vs \<Rightarrow> channel vs = None) then
       [Send (mention memb @ '' is not in a voice channel.'') True]
     else if top_role author \<le> top_role memb \<and> \<not> is_owner bot author then
       [Send ''You cannot deafen a member with an equal or higher role.'' True]
     else
       let call = Member_edit memb None (Some True) reason in
       Call call #
       (case P call of
          Returns \<Rightarrow> [Send (''Successfully deafened '' @ mention memb @ ''.'') True]
        | Raises_Forbidden \<Rightarrow>
            [Send ''I don't have the required permissions to deafen this user.'' True]
        | Raises e \<Rightarrow> [Send (''An error occurred: '' @ e) True]))"

subsection \<open>The command surface\<close>

text \<open>
  The eight slash commands by name, as the command tree calls them. \<open>unmute\<close>,
  \<open>undeafen\<close> and \<open>unsilence\<close> have no \<open>reason\<close> parameter: for them the argument is
  not part of the command and is dropped here.
\<close>

datatype action = Kick | Ban | Mute | Unmute | Deafen | Undeafen | Silence | Unsilence

fun slash_command :: "action \<Rightarrow> platform \<Rightarrow> interaction \<Rightarrow> member \<Rightarrow> string option \<Rightarrow> event list" where
  "slash_command Kick P i m r = kick_slash P i m r"
| "slash_command Ban P i m r = ban_slash P i m r"
| "slash_command Mute P i m r = mute_slash P i m r"
| "slash_command Unmute P i m r = unmute_slash P i m"
| "slash_command Deafen P i m r = deafen_slash P i m r"
| "slash_command Undeafen P i m r = undeafen_slash P i m"
| "slash_command Silence P i m r = silence_slash P i m r"
| "slash_command Unsilence P i m r = unsilence_slash P i m"

text \<open>
  The context-menu commands the second variant adds to the tree (\<open>Kick User\<close>,
  \<open>Ban User\<close>, \<open>Mute User\<close>, \<open>Deafen User\<close>); the other four actions have none.
\<close>

fun context_menu :: "action \<Rightarrow> (platform \<Rightarrow> interaction \<Rightarrow> member \<Rightarrow> event list) option" where
  "context_menu Kick = Some kick_context_menu"
| "context_menu Ban = Some ban_context_menu"
| "context_menu Mute = Some mute_context_menu"
| "context_menu Deafen = Some deafen_context_menu"
| "context_menu Unmute = None"
| "context_menu Undeafen = None"
| "context_menu Silence = None"
| "context_menu Unsilence = None"

text \<open>The word each handler puts into its messages: the command's name.\<close>

fun verb :: "action \<Rightarrow> string" where
  "verb Kick = ''kick''"
| "verb Ban = ''ban''"
| "verb Mute = ''mute''"
| "verb Unmute = ''unmute''"
| "verb Deafen = ''deafen''"
| "verb Undeafen = ''undeafen''"
| "verb Silence = ''silence''"
| "verb Unsilence = ''unsilence''"

definition voice_action :: "action \<Rightarrow> bool" where
  "voice_action a = (a \<noteq> Kick \<and> a \<noteq> Ban)"

text \<open>The word each handler ends its confirmation with.\<close>

fun done_word :: "action \<Rightarrow> string" where
  "done_word Kick = ''kicked''"
| "done_word Ban = ''banned''"
| "done_word Mute = ''muted''"
| "done_word Unmute = ''unmuted''"
| "done_word Deafen = ''deafened''"
| "done_word Undeafen = ''undeafened''"
| "done_word Silence = ''silenced''"
| "done_word Unsilence = ''unsilenced''"

text \<open>The word each handler starts its audit reason with.\<close>

fun audit_word :: "action \<Rightarrow> string" where
  "audit_word Kick = ''Kicked''"
| "audit_word Ban = ''Banned''"
| "audit_word Mute = ''Muted''"
| "audit_word Unmute = ''Unmuted''"
| "audit_word Deafen = ''Deafened''"
| "audit_word Undeafen = ''Undeafened''"
| "audit_word Silence = ''Silenced''"
| "audit_word Unsilence = ''Unsilenced''"

subsection \<open>Reading a list of events\<close>

text \<open>The platform calls among the events, in order; the target and the reason of a call.\<close>

fun calls :: "event list \<Rightarrow> platform_call list" where
  "calls [] = []"
| "calls (Call c # evs) = c # calls evs"
| "calls (Send s e # evs) = calls evs"

fun call_target :: "platform_call \<Rightarrow> member" where
  "call_target (Member_kick m r) = m"
| "call_target (Member_ban m r) = m"
| "call_target (Member_edit m mu de r) = m"

fun call_reason :: "platform_call \<Rightarrow> string" where
  "call_reason (Member_kick m r) = r"
| "call_reason (Member_ban m r) = r"
| "call_reason (Member_edit m mu de r) = r"

fun with_reason :: "string \<Rightarrow> platform_call \<Rightarrow> platform_call" where
  "with_reason r' (Member_kick m r) = Member_kick m r'"
| "with_reason r' (Member_ban m r) = Member_ban m r'"
| "with_reason r' (Member_edit m mu de r) = Member_edit m mu de r'"

subsection \<open>The guards by name\<close>

text \<open>
  The conditions the handlers test, named as the specification names them:
  \<open>member.id == author.id\<close>;
  \<open>author.top_role <= member.top_role and not await bot.is_owner(author)\<close>;
  \<open>interaction.guild.me.top_role <= member.top_role\<close>;
  and the negation of \<open>not member.voice or not member.voice.channel\<close>.
  \<open>checks_pass\<close> is the conjunction each handler requires before its \<open>try\<close> block:
  the first three negated for kick and ban, the voice test and the second negated for the
  six voice actions.
\<close>

definition self_target :: "interaction \<Rightarrow> member \<Rightarrow> bool" where
  "self_target i m = (member_id m = member_id (user i))"

definition actor_outranked :: "interaction \<Rightarrow> member \<Rightarrow> bool" where
  "actor_outranked i m = (top_role (user i) \<le> top_role m \<and> \<not> is_owner (client i) (user i))"

definition bot_outranked :: "interaction \<Rightarrow> member \<Rightarrow> bool" where
  "bot_outranked i m = (top_role (me (guild i)) \<le> top_role m)"

definition in_voice :: "member \<Rightarrow> bool" where
  "in_voice m = (Option.bind (voice m) channel \<noteq> None)"

definition checks_pass :: "action \<Rightarrow> interaction \<Rightarrow> member \<Rightarrow> bool" where
  "checks_pass a i m =
    (if voice_action a then in_voice m \<and> \<not> actor_outranked i m
     else \<not> self_target i m \<and> \<not> actor_outranked i m \<and> \<not> bot_outranked i m)"

section \<open>Example requests\<close>

text \<open>
  Concrete members, bots, platforms and requests, at which the theorems below are
  evaluated. Ranks: the moderator 10, the newcomer 5, the weak bot 3, the strong bot 20.
\<close>

definition moderator :: member where
  "moderator = \<lparr>member_id = 7, name = ''alice'', display_name = ''Al'', mention = ''<@7>'',
     roles = [\<lparr>role_id = 500, role_mention = ''<@&500>''\<rparr>], top_role = 10, voice = None\<rparr>"

definition newcomer :: member where
  "newcomer = \<lparr>member_id = 42, name = ''bob'', display_name = ''Bobby'', mention = ''<@42>'',
     roles = [], top_role = 5, voice = Some \<lparr>channel = Some 3\<rparr>\<rparr>"

definition speaker :: member where
  "speaker = \<lparr>member_id = 8, name = ''carol'', display_name = ''Caz'', mention = ''<@8>'',
     roles = [\<lparr>role_id = 600, role_mention = ''<@&600>''\<rparr>], top_role = 10,
     voice = Some \<lparr>channel = Some 3\<rparr>\<rparr>"

definition weak_bot :: member where
  "weak_bot = \<lparr>member_id = 1, name = ''modbot'', display_name = ''ModBot'', mention = ''<@1>'',
     roles = [], top_role = 3, voice = None\<rparr>"

definition strong_bot :: member where
  "strong_bot = \<lparr>member_id = 1, name = ''modbot'', display_name = ''ModBot'', mention = ''<@1>'',
     roles = [], top_role = 20, voice = None\<rparr>"

text \<open>The owner test of a bot whose one owner has the given id; nobody has id 0.\<close>

definition owner_with_id :: "nat \<Rightarrow> member \<Rightarrow> bool" where
  "owner_with_id n m = (member_id m = n)"

text \<open>A platform that answers every call the same way.\<close>

definition answering :: "outcome \<Rightarrow> platform" where
  "answering r c = r"

text \<open>A loaded cog whose store lists role 500 for guild 100.\<close>

definition configured_cog :: cog where
  "configured_cog = \<lparr>config = [100 \<mapsto> [500]]\<rparr>"

definition request :: "member \<Rightarrow> member \<Rightarrow> nat \<Rightarrow> interaction" where
  "request author the_bot owner_id =
     \<lparr>user = author, guild = \<lparr>guild_id = 100, me = the_bot\<rparr>,
      client = \<lparr>is_owner = owner_with_id owner_id, get_cog = [''ModSlash'' \<mapsto> configured_cog]\<rparr>\<rparr>"

definition staff_role :: role where
  "staff_role = \<lparr>role_id = 500, role_mention = ''<@&500>''\<rparr>"

definition helper_role :: role where
  "helper_role = \<lparr>role_id = 600, role_mention = ''<@&600>''\<rparr>"

text \<open>A history of configuration commands: add the helper role, remove it, add the staff role.\<close>

definition history :: "config_command list" where
  "history =
     [Addrole (request moderator strong_bot 0) helper_role,
      Removerole (request moderator strong_bot 0) helper_role,
      Addrole (request moderator strong_bot 0) staff_role]"

section \<open>Properties\<close>

subsection \<open>Simplification sets and evaluation lemmas\<close>

lemmas example_defs =
  moderator_def newcomer_def speaker_def weak_bot_def strong_bot_def owner_with_id_def
  answering_def configured_cog_def request_def staff_role_def helper_role_def history_def

lemmas handler_defs =
  kick_slash_def ban_slash_def mute_slash_def unmute_slash_def deafen_slash_def
  undeafen_slash_def silence_slash_def unsilence_slash_def check_voice_channel_def
  default_reason_def Let_def

lemmas context_menu_defs =
  kick_context_menu_def ban_context_menu_def mute_context_menu_def deafen_context_menu_def

lemmas guard_defs =
  self_target_def actor_outranked_def bot_outranked_def in_voice_def checks_pass_def
  voice_action_def

lemma str_nat_7: "str_nat 7 = ''7''"
  by (simp add: str_nat.simps digit_def)

lemma str_nat_8: "str_nat 8 = ''8''"
  by (simp add: str_nat.simps digit_def)

subsection \<open>Hierarchy checks of kick and ban\<close>




text \<open>
  Claim C2 says that every action rejects a request whose target is the actor. The voice
  handlers have no such test: an owner in a voice channel who silences themself gets the
  mutation.
\<close>

theorem self_target_unchecked_for_silence:
  "self_target (request speaker strong_bot 8) speaker \<and>
   slash_command Silence (answering Returns) (request speaker strong_bot 8) speaker None =
     [Call (Member_edit speaker (Some True) (Some True)
        ''Silenced by carol (8). Reason: No reason provided.''),
      Send ''Successfully silenced <@8>. Reason: No reason provided.'' True]"
  by (simp add: handler_defs guard_defs example_defs str_nat_8)

text \<open>
  Claim C2 as the code has it: for kick and ban, a request whose target has the actor's id
  is answered with the self-target message and nothing else, whatever the ranks, the
  owner status and the platform are; it is the first test of the handler.
\<close>

theorem self_target_kick_ban:
  assumes "a = Kick \<or> a = Ban" and "self_target i m"
  shows "slash_command a P i m r = [Send (''You cannot '' @ verb a @ '' yourself.'') True]"
  using assms by (auto simp: handler_defs guard_defs)

theorem self_target_kick_ban_witness:
  "(Ban = Kick \<or> Ban = Ban) \<and> self_target (request moderator strong_bot 7) moderator \<and>
   slash_command Ban (answering Returns) (request moderator strong_bot 7) moderator (Some ''spam'') =
     [Send ''You cannot ban yourself.'' True]"
proof -
  have h1: "Ban = Kick \<or> Ban = Ban" by simp
  have h2: "self_target (request moderator strong_bot 7) moderator"
    by (simp add: guard_defs example_defs)
  from self_target_kick_ban [OF h1 h2, of "answering Returns" "Some ''spam''"] h1 h2
  show ?thesis by simp
qed

text \<open>
  Claim C4 says that a kick or ban by an owner is rejected with the bot-outranked message
  whenever the bot does not outrank the target. When the owner is the target, the
  self-target test comes first and its message is the one sent.
\<close>

theorem owner_self_target_before_bot_check:
  "is_owner (client (request moderator weak_bot 7)) (user (request moderator weak_bot 7)) \<and>
   bot_outranked (request moderator weak_bot 7) moderator \<and>
   slash_command Kick (answering Returns) (request moderator weak_bot 7) moderator None =
     [Send ''You cannot kick yourself.'' True]"
  by (simp add: handler_defs guard_defs example_defs)

text \<open>
  Claim C4 as the code has it: a kick or ban by an owner whose target the bot does not
  outrank never reaches the platform, and when the target is not the owner the response is
  the bot-outranked message: owner status does not bypass the bot's check.
\<close>

theorem owner_bot_outranked:
  assumes "a = Kick \<or> a = Ban" and "is_owner (client i) (user i)" and "bot_outranked i m"
  shows "calls (slash_command a P i m r) = [] \<and>
    (\<not> self_target i m \<longrightarrow>
       slash_command a P i m r =
         [Send (''I cannot '' @ verb a @ '' a member with an equal or higher role than me.'') True])"
  using assms by (auto simp: handler_defs guard_defs)

theorem owner_bot_outranked_witness:
  "(Ban = Kick \<or> Ban = Ban) \<and>
   is_owner (client (request speaker weak_bot 8)) (user (request speaker weak_bot 8)) \<and>
   bot_outranked (request speaker weak_bot 8) moderator \<and>
   \<not> self_target (request speaker weak_bot 8) moderator \<and>
   calls (slash_command Ban (answering Returns) (request speaker weak_bot 8) moderator None) = [] \<and>
   slash_command Ban (answering Returns) (request speaker weak_bot 8) moderator None =
     [Send ''I cannot ban a member with an equal or higher role than me.'' True]"
proof -
  have h1: "Ban = Kick \<or> Ban = Ban" by simp
  have h2: "is_owner (client (request speaker weak_bot 8)) (user (request speaker weak_bot 8))"
    by (simp add: example_defs)
  have h3: "bot_outranked (request speaker weak_bot 8) moderator"
    by (simp add: guard_defs example_defs)
  have h4: "\<not> self_target (request speaker weak_bot 8) moderator"
    by (simp add: guard_defs example_defs)
  from owner_bot_outranked [OF h1 h2 h3, of "answering Returns" None] h1 h2 h3 h4
  show ?thesis by simp
qed

subsection \<open>The authorization check\<close>



subsection \<open>Voice actions\<close>

text \<open>
  Claim C5: for each of the six voice actions, when the target has no voice state or its
  voice state has no channel, the handler sends the not-in-a-voice-channel message and does
  nothing else; the result does not depend on any rank, on owner status or on the platform.
\<close>

theorem voice_absent_rejected:
  assumes "voice_action a" and "Option.bind (voice m) channel = None"
  shows "slash_command a P i m r = [Send (mention m @ '' is not in a voice channel.'') True]"
  using assms by (cases a; cases "voice m") (simp_all add: handler_defs voice_action_def)

theorem voice_absent_rejected_witness:
  "voice_action Mute \<and> Option.bind (voice moderator) channel = None \<and>
   slash_command Mute (answering Returns) (request speaker weak_bot 0) moderator None =
     [Send ''<@7> is not in a voice channel.'' True]"
proof -
  have h1: "voice_action Mute" by (simp add: voice_action_def)
  have h2: "Option.bind (voice moderator) channel = None" by (simp add: moderator_def)
  from voice_absent_rejected [OF h1 h2, of "answering Returns" "request speaker weak_bot 0" None] h1 h2
  show ?thesis by (simp add: moderator_def)
qed



subsection \<open>Failures of the platform call\<close>

text \<open>
  Claim C6: for each action, when all checks pass the handler calls the platform exactly
  once, on the target; if the call raises the permission fault the events are the call and
  the fixed message naming the action, and if it raises anything else they are the call and
  a message that ends with the failure's text. All responses are ephemeral.
\<close>

theorem mutation_failure_reported:
  assumes "checks_pass a i m"
  shows "\<exists>c. calls (slash_command a P i m r) = [c] \<and> call_target c = m \<and>
     (P c = Raises_Forbidden \<longrightarrow> slash_command a P i m r =
        [Call c, Send (''I don't have the required permissions to '' @ verb a @ '' this user.'') True]) \<and>
     (\<forall>e. P c = Raises e \<longrightarrow> slash_command a P i m r =
        [Call c, Send (''An error occurred: '' @ e) True])"
  using assms
  by (cases a; cases "voice m")
     (simp_all add: handler_defs guard_defs split: outcome.split)

theorem mutation_failure_reported_witness:
  "checks_pass Kick (request moderator strong_bot 0) newcomer \<and>
   slash_command Kick (answering Raises_Forbidden) (request moderator strong_bot 0) newcomer
       (Some ''spam'') =
     [Call (Member_kick newcomer ''Kicked by alice (7). Reason: spam''),
      Send ''I don't have the required permissions to kick this user.'' True] \<and>
   slash_command Kick (answering (Raises ''404 Not Found'')) (request moderator strong_bot 0)
       newcomer (Some ''spam'') =
     [Call (Member_kick newcomer ''Kicked by alice (7). Reason: spam''),
      Send ''An error occurred: 404 Not Found'' True]"
proof -
  have h: "checks_pass Kick (request moderator strong_bot 0) newcomer"
    by (simp add: guard_defs example_defs)
  have c1: "calls (slash_command Kick (answering Raises_Forbidden)
               (request moderator strong_bot 0) newcomer (Some ''spam'')) =
            [Member_kick newcomer ''Kicked by alice (7). Reason: spam'']"
    by (simp add: handler_defs example_defs str_nat_7)
  have c2: "calls (slash_command Kick (answering (Raises ''404 Not Found''))
               (request moderator strong_bot 0) newcomer (Some ''spam'')) =
            [Member_kick newcomer ''Kicked by alice (7). Reason: spam'']"
    by (simp add: handler_defs example_defs str_nat_7)
  from mutation_failure_reported [OF h, of "answering Raises_Forbidden" "Some ''spam''"] c1
  have a: "slash_command Kick (answering Raises_Forbidden) (request moderator strong_bot 0)
       newcomer (Some ''spam'') =
     [Call (Member_kick newcomer ''Kicked by alice (7). Reason: spam''),
      Send ''I don't have the required permissions to kick this user.'' True]"
    by (auto simp: answering_def)
  from mutation_failure_reported [OF h, of "answering (Raises ''404 Not Found'')" "Some ''spam''"] c2
  have b: "slash_command Kick (answering (Raises ''404 Not Found'')) (request moderator strong_bot 0)
       newcomer (Some ''spam'') =
     [Call (Member_kick newcomer ''Kicked by alice (7). Reason: spam''),
      Send ''An error occurred: 404 Not Found'' True]"
    by (auto simp: answering_def)
  from h a b show ?thesis by simp
qed

subsection \<open>Context menus and slash commands\<close>

text \<open>
  Claim C7 says that a context-menu command and the slash command of the same action
  compose the same audit reason. A context menu has no reason parameter: its reason is
  built from the display name alone, and its confirmation leaves the reason out.
\<close>

theorem context_menu_drops_reason:
  "context_menu Kick = Some kick_context_menu \<and>
   kick_context_menu (answering Returns) (request moderator strong_bot 0) newcomer =
     [Call (Member_kick newcomer ''Kicked by Al via context menu.''),
      Send ''Successfully kicked <@42>.'' True] \<and>
   slash_command Kick (answering Returns) (request moderator strong_bot 0) newcomer None =
     [Call (Member_kick newcomer ''Kicked by alice (7). Reason: No reason provided.''),
      Send ''Successfully kicked <@42>. Reason: No reason provided.'' True]"
  by (simp add: handler_defs context_menu_defs example_defs str_nat_7)

text \<open>
  Claim C7 as the code has it, for the four actions that have a context menu: when a check
  fails both entry points give the same events (same checks, same order, same messages);
  when all pass both call the platform once with the same mutation of the same target,
  differing in the reason only: the slash command composes it from the actor's name and id
  and the given or default reason, the context menu from the display name; failures are
  reported alike, and the confirmations differ in the reason part.
\<close>

theorem context_menu_same_checks:
  assumes "context_menu a = Some h"
  shows "(\<not> checks_pass a i m \<longrightarrow> h P i m = slash_command a P i m r) \<and>
         (checks_pass a i m \<longrightarrow>
            (\<exists>c c'. calls (slash_command a P i m r) = [c] \<and> calls (h P i m) = [c'] \<and>
               call_reason c =
                 audit_word a @ '' by '' @ name (user i) @ '' ('' @ str_nat (member_id (user i))
                   @ ''). Reason: '' @ default_reason r \<and>
               c' = with_reason
                      (audit_word a @ '' by '' @ display_name (user i) @ '' via context menu.'') c \<and>
               (P c = Returns \<longrightarrow> slash_command a P i m r =
                  [Call c, Send (''Successfully '' @ done_word a @ '' '' @ mention m
                     @ ''. Reason: '' @ default_reason r) True]) \<and>
               (P c' = Returns \<longrightarrow> h P i m =
                  [Call c', Send (''Successfully '' @ done_word a @ '' '' @ mention m @ ''.'') True]) \<and>
               (P c' = P c \<and> P c \<noteq> Returns \<longrightarrow>
                  h P i m = Call c' # tl (slash_command a P i m r))))"
  using assms
  by (cases a; cases "voice m")
     (auto simp: handler_defs context_menu_defs guard_defs split: outcome.split)

theorem context_menu_same_checks_witness:
  "context_menu Ban = Some ban_context_menu \<and>
   \<not> checks_pass Ban (request moderator weak_bot 0) newcomer \<and>
   ban_context_menu (answering Returns) (request moderator weak_bot 0) newcomer =
     slash_command Ban (answering Returns) (request moderator weak_bot 0) newcomer (Some ''spam'') \<and>
   ban_context_menu (answering Returns) (request moderator weak_bot 0) newcomer =
     [Send ''I cannot ban a member with an equal or higher role than me.'' True]"
proof -
  have h1: "context_menu Ban = Some ban_context_menu" by simp
  have h2: "\<not> checks_pass Ban (request moderator weak_bot 0) newcomer"
    by (simp add: guard_defs example_defs)
  have s: "slash_command Ban (answering Returns) (request moderator weak_bot 0) newcomer
             (Some ''spam'') =
           [Send ''I cannot ban a member with an equal or higher role than me.'' True]"
    by (simp add: handler_defs example_defs)
  from context_menu_same_checks [OF h1, of "request moderator weak_bot 0" newcomer
      "answering Returns" "Some ''spam''"] h2
  have e: "ban_context_menu (answering Returns) (request moderator weak_bot 0) newcomer =
     slash_command Ban (answering Returns) (request moderator weak_bot 0) newcomer (Some ''spam'')"
    by simp
  from h1 h2 e s show ?thesis by simp
qed

subsection \<open>The configured list\<close>

lemma mod_roles_update:
  "mod_roles (cfg(guild_id g \<mapsto> ids)) g' =
     (if guild_id g' = guild_id g then ids else mod_roles cfg g')"
  by (simp add: mod_roles_def)

lemma add_mod_role_distinct:
  assumes "\<And>g. distinct (mod_roles (config c) g)"
  shows "distinct (mod_roles (config (fst (add_mod_role c i r))) g)"
  using assms by (simp add: add_mod_role_def Let_def mod_roles_update)

lemma remove_mod_role_total:
  "\<exists>c' sent. remove_mod_role c i r = Inr (c', sent)"
  by (simp add: remove_mod_role_def list_remove_def Let_def)

lemma remove_mod_role_distinct:
  assumes "\<And>g. distinct (mod_roles (config c) g)" and "remove_mod_role c i r = Inr (c', sent)"
  shows "distinct (mod_roles (config c') g)"
  using assms
  by (auto simp: remove_mod_role_def list_remove_def Let_def mod_roles_update split: if_splits)

lemma run_config_distinct:
  assumes "\<And>g. distinct (mod_roles (config c) g)"
  shows "distinct (mod_roles (config (run_config c cmds)) g)"
  using assms
proof (induction cmds arbitrary: c)
  case Nil
  then show ?case by simp
next
  case (Cons cmd cmds)
  show ?case
  proof (cases cmd)
    case (Addrole i r)
    have "distinct (mod_roles (config (run_config (fst (add_mod_role c i r)) cmds)) g)"
      by (rule Cons.IH) (rule add_mod_role_distinct, rule Cons.prems)
    with Addrole show ?thesis by simp
  next
    case (Removerole i r)
    obtain c' sent where r: "remove_mod_role c i r = Inr (c', sent)"
      using remove_mod_role_total by blast
    have "distinct (mod_roles (config (run_config c' cmds)) g)"
      by (rule Cons.IH) (rule remove_mod_role_distinct [OF Cons.prems r])
    with Removerole r show ?thesis by simp
  qed
qed

lemma new_cog_distinct: "distinct (mod_roles (config new_cog) g)"
  by (simp add: new_cog_def mod_roles_def)

lemma count_list_distinct:
  "distinct xs \<Longrightarrow> count_list xs x = (if x \<in> set xs then 1 else 0)"
  by (induction xs) auto

text \<open>
  Claim C8: from any store that configuration commands can produce, adding the same role
  twice leaves exactly one occurrence of its id in the guild's list; the second call
  changes nothing and answers that the role is already a moderator role; and no list of
  such a store has duplicates.
\<close>

theorem add_role_idempotent:
  "count_list
     (mod_roles (config (fst (add_mod_role (fst (add_mod_role (run_config new_cog cmds) i r)) i r)))
        (guild i))
     (role_id r) = 1 \<and>
   snd (add_mod_role (fst (add_mod_role (run_config new_cog cmds) i r)) i r) =
     [Send (role_mention r @ '' is already a moderator role.'') True] \<and>
   fst (add_mod_role (fst (add_mod_role (run_config new_cog cmds) i r)) i r) =
     fst (add_mod_role (run_config new_cog cmds) i r) \<and>
   distinct (mod_roles (config (run_config new_cog cmds)) g)"
proof -
  define c where "c = run_config new_cog cmds"
  define c1 where "c1 = fst (add_mod_role c i r)"
  have dc: "distinct (mod_roles (config c) g')" for g'
    unfolding c_def by (rule run_config_distinct) (rule new_cog_distinct)
  have d1: "distinct (mod_roles (config c1) (guild i))"
    unfolding c1_def by (rule add_mod_role_distinct) (rule dc)
  have in1: "role_id r \<in> set (mod_roles (config c1) (guild i))"
    by (simp add: c1_def add_mod_role_def Let_def mod_roles_update)
  have same: "add_mod_role c1 i r =
      (c1, [Send (role_mention r @ '' is already a moderator role.'') True])"
    using in1 by (simp add: add_mod_role_def Let_def)
  have "count_list (mod_roles (config c1) (guild i)) (role_id r) = 1"
    using d1 in1 by (simp add: count_list_distinct)
  with same dc show ?thesis by (simp add: c_def c1_def)
qed

theorem add_role_idempotent_witness:
  "mod_roles
     (config (fst (add_mod_role
        (fst (add_mod_role (run_config new_cog history) (request moderator strong_bot 0) staff_role))
        (request moderator strong_bot 0) staff_role)))
     (guild (request moderator strong_bot 0)) = [500] \<and>
   snd (add_mod_role
        (fst (add_mod_role (run_config new_cog history) (request moderator strong_bot 0) staff_role))
        (request moderator strong_bot 0) staff_role) =
     [Send ''<@&500> is already a moderator role.'' True]"
proof -
  have e: "mod_roles (config (fst (add_mod_role (run_config new_cog history)
             (request moderator strong_bot 0) staff_role)))
           (guild (request moderator strong_bot 0)) = [500]"
    by (simp add: history_def request_def staff_role_def helper_role_def new_cog_def
          add_mod_role_def remove_mod_role_def list_remove_def mod_roles_def Let_def)
  from add_role_idempotent [of history "request moderator strong_bot 0" staff_role
      "guild (request moderator strong_bot 0)"] e
  show ?thesis by (simp add: staff_role_def)
qed

text \<open>
  Claim C9: removing a role whose id is not in the guild's list returns normally, leaves
  the store as it was and answers that the role is not a moderator role.
\<close>

theorem remove_absent_role:
  assumes "role_id r \<notin> set (mod_roles (config c) (guild i))"
  shows "remove_mod_role c i r =
    Inr (c, [Send (role_mention r @ '' is not a moderator role.'') True])"
  using assms by (simp add: remove_mod_role_def Let_def)

theorem remove_absent_role_witness:
  "role_id helper_role
     \<notin> set (mod_roles (config configured_cog) (guild (request moderator strong_bot 0))) \<and>
   remove_mod_role configured_cog (request moderator strong_bot 0) helper_role =
     Inr (configured_cog, [Send ''<@&600> is not a moderator role.'' True])"
proof -
  have h: "role_id helper_role
     \<notin> set (mod_roles (config configured_cog) (guild (request moderator strong_bot 0)))"
    by (simp add: example_defs mod_roles_def)
  from remove_absent_role [OF h] h show ?thesis by (simp add: helper_role_def)
qed

end
